theory Spec2Isabelle
  imports Complex_Main "HOL-Library.Log_Nat"
begin

section \<open>JavaScript values\<close>

text \<open>
  The provider settings reader of \<^verbatim>\<open>LLMSettingsReader\<close> and the zod schemas of
  \<^verbatim>\<open>NemoTypes.ts\<close> work on untyped values read from the browser. A JavaScript
  Number is one of the finite doubles, the two infinities or NaN; a finite double is
  modelled by the rational it denotes (the sign of zero is not kept). A string is a list
  of code units below 256.
\<close>

datatype jsnum = Fin rat | PosInf | NegInf | NaN

datatype jsval =
    JUndefined
  | JNull
  | JBool bool
  | JNum jsnum
  | JStr string
  | JArr "jsval list"
  | JObj "(string \<times> jsval) list"

datatype exn = SyntaxError | ZodError | TypeError

text \<open>\<^verbatim>\<open>!v\<close> is false exactly on the truthy values.\<close>

fun truthy :: "jsval \<Rightarrow> bool" where
  "truthy JUndefined = False"
| "truthy JNull = False"
| "truthy (JBool b) = b"
| "truthy (JNum n) = (n \<noteq> NaN \<and> n \<noteq> Fin 0)"
| "truthy (JStr s) = (s \<noteq> [])"
| "truthy (JArr xs) = True"
| "truthy (JObj kvs) = True"

text \<open>
  An object is the list of its own properties, the first binding of a key being the
  one that counts. \<^verbatim>\<open>o[k]\<close> for a key \<open>k\<close> that \<^verbatim>\<open>Object.prototype\<close> does
  not have is the object's own property, or undefined.
\<close>

definition own_prop :: "(string \<times> jsval) list \<Rightarrow> string \<Rightarrow> jsval" where
  "own_prop kvs k = (case map_of kvs k of None \<Rightarrow> JUndefined | Some v \<Rightarrow> v)"

subsection \<open>Rounding to a double\<close>

definition pow2 :: "int \<Rightarrow> rat" where
  "pow2 e = (if 0 \<le> e then 2 ^ nat e else 1 / 2 ^ nat (- e))"

text \<open>The integer part of the binary logarithm of a positive rational.\<close>

definition ilog2 :: "rat \<Rightarrow> int" where
  "ilog2 a =
     (if 1 \<le> a then int (floorlog 2 (nat \<lfloor>a\<rfloor>)) - 1
      else (let b = int (floorlog 2 (nat \<lfloor>1 / a\<rfloor>))
            in if a * pow2 (b - 1) = 1 then - (b - 1) else - b))"

definition round_half_even :: "rat \<Rightarrow> int" where
  "round_half_even x =
     (let f = \<lfloor>x\<rfloor>; r = x - of_int f
      in if r < 1 / 2 then f
         else if 1 / 2 < r then f + 1
         else if even f then f else f + 1)"

text \<open>
  The Number value of a mathematical value: the nearest double, ties to the even
  significand, with 53 bits of significand, the least exponent of the subnormals, and an
  infinity from \<open>2 ^ 1024\<close> on.
\<close>

definition to_double :: "rat \<Rightarrow> jsnum" where
  "to_double q =
     (if q = 0 then Fin 0
      else (let a = \<bar>q\<bar>;
                e = max (ilog2 a) (- 1022);
                u = pow2 (e - 52);
                r = of_int (round_half_even (a / u)) * u
            in if pow2 1024 \<le> r then (if q < 0 then NegInf else PosInf)
               else Fin (if q < 0 then - r else r)))"

subsection \<open>\<^verbatim>\<open>parseInt(s, 10)\<close> and \<^verbatim>\<open>parseFloat(s)\<close>\<close>

definition is_space :: "char \<Rightarrow> bool" where
  "is_space c = ((of_char c :: nat) \<in> {9, 10, 11, 12, 13, 32, 160})"

definition is_digit :: "char \<Rightarrow> bool" where
  "is_digit c = (48 \<le> (of_char c :: nat) \<and> (of_char c :: nat) \<le> 57)"

definition digits_val :: "string \<Rightarrow> nat" where
  "digits_val ds = foldl (\<lambda>acc c. 10 * acc + (of_char c - 48)) 0 ds"

text \<open>The sign of a numeral and the text after it.\<close>

fun strip_sign :: "string \<Rightarrow> bool \<times> string" where
  "strip_sign [] = (False, [])"
| "strip_sign (c # cs) =
     (if c = CHR ''-'' then (True, cs)
      else if c = CHR ''+'' then (False, cs)
      else (False, c # cs))"

definition signed :: "bool \<Rightarrow> jsnum \<Rightarrow> jsnum" where
  "signed neg n =
     (if neg then (case n of Fin q \<Rightarrow> Fin (- q) | PosInf \<Rightarrow> NegInf | NegInf \<Rightarrow> PosInf | NaN \<Rightarrow> NaN)
      else n)"

definition parseInt10 :: "string \<Rightarrow> jsnum" where
  "parseInt10 s =
     (let (neg, t) = strip_sign (dropWhile is_space s);
          z = takeWhile is_digit t
      in if z = [] then NaN else signed neg (to_double (of_nat (digits_val z))))"

text \<open>
  The exponent part \<^verbatim>\<open>e\<close>, sign, digits at the head of a text, when there is one:
  without a digit after the indicator there is none.
\<close>

definition exponent_part :: "string \<Rightarrow> int option" where
  "exponent_part t =
     (case t of
        [] \<Rightarrow> None
      | c # cs \<Rightarrow>
          if c = CHR ''e'' \<or> c = CHR ''E'' then
            (let (neg, u) = strip_sign cs; ds = takeWhile is_digit u
             in if ds = [] then None
                else Some (if neg then - int (digits_val ds) else int (digits_val ds)))
          else None)"

definition pow10 :: "int \<Rightarrow> rat" where
  "pow10 e = (if 0 \<le> e then 10 ^ nat e else 1 / 10 ^ nat (- e))"

text \<open>
  The longest prefix that is a \<^verbatim>\<open>StrUnsignedDecimalLiteral\<close>: \<^verbatim>\<open>Infinity\<close>,
  or digits with an optional fraction and exponent, at least one digit before the
  exponent.
\<close>

definition unsigned_decimal :: "string \<Rightarrow> jsnum" where
  "unsigned_decimal t =
     (let ip = takeWhile is_digit t;
          r1 = dropWhile is_digit t;
          has_dot = (r1 \<noteq> [] \<and> hd r1 = CHR ''.'');
          fp = (if has_dot then takeWhile is_digit (tl r1) else []);
          r2 = (if has_dot then dropWhile is_digit (tl r1) else r1)
      in if ip = [] \<and> fp = [] then
           (if take 8 t = ''Infinity'' then PosInf else NaN)
         else
           (let m = of_nat (digits_val ip) + of_nat (digits_val fp) / 10 ^ length fp;
                e = (case exponent_part r2 of None \<Rightarrow> 0 | Some k \<Rightarrow> k)
            in to_double (m * pow10 e)))"

definition parseFloat :: "string \<Rightarrow> jsnum" where
  "parseFloat s =
     (let (neg, t) = strip_sign (dropWhile is_space s)
      in signed neg (unsigned_decimal t))"

section \<open>The schemas of \<^verbatim>\<open>NemoTypes.ts\<close>\<close>

text \<open>
  A zod schema takes a value and returns the parsed value or throws a
  \<^verbatim>\<open>ZodError\<close>. An object schema reads the keys of its shape and drops the others;
  \<^verbatim>\<open>.optional()\<close> lets undefined through. The schemas are those of zod 3, whose
  \<^verbatim>\<open>z.number()\<close> refuses NaN and takes the infinities.
\<close>

definition and_then :: "exn + 'a \<Rightarrow> ('a \<Rightarrow> exn + 'b) \<Rightarrow> exn + 'b" where
  "and_then r f = (case r of Inl e \<Rightarrow> Inl e | Inr x \<Rightarrow> f x)"

definition optional :: "(jsval \<Rightarrow> exn + 'a) \<Rightarrow> jsval \<Rightarrow> exn + 'a option" where
  "optional schema v =
     (case v of JUndefined \<Rightarrow> Inr None | _ \<Rightarrow> and_then (schema v) (\<lambda>x. Inr (Some x)))"

fun z_string :: "jsval \<Rightarrow> exn + string" where
  "z_string (JStr s) = Inr s"
| "z_string _ = Inl ZodError"

fun z_boolean :: "jsval \<Rightarrow> exn + bool" where
  "z_boolean (JBool b) = Inr b"
| "z_boolean _ = Inl ZodError"

text \<open>\<^verbatim>\<open>z.number()\<close> takes every Number but NaN.\<close>

definition number_ok :: "jsnum \<Rightarrow> exn + jsnum" where
  "number_ok n = (if n = NaN then Inl ZodError else Inr n)"

fun z_number :: "jsval \<Rightarrow> exn + jsnum" where
  "z_number (JNum n) = number_ok n"
| "z_number _ = Inl ZodError"

fun z_array :: "(jsval \<Rightarrow> exn + 'a) \<Rightarrow> jsval list \<Rightarrow> exn + 'a list" where
  "z_array schema [] = Inr []"
| "z_array schema (j # js) =
     and_then (schema j) (\<lambda>x. and_then (z_array schema js) (\<lambda>xs. Inr (x # xs)))"

datatype NemoProviderType =
    nemo | openai | openai_compatible | anthropic | google_gemini | ollama | openrouter
  | custom

definition NemoProviderTypeSchema :: "jsval \<Rightarrow> exn + NemoProviderType" where
  "NemoProviderTypeSchema j =
     (case j of
        JStr s \<Rightarrow>
          (case map_of
             [(''nemo'', nemo), (''openai'', openai),
              (''openai_compatible'', openai_compatible), (''anthropic'', anthropic),
              (''google_gemini'', google_gemini), (''ollama'', ollama),
              (''openrouter'', openrouter), (''custom'', custom)] s of
             None \<Rightarrow> Inl ZodError
           | Some t \<Rightarrow> Inr t)
      | _ \<Rightarrow> Inl ZodError)"

record ProviderCapabilities =
  supportsImages :: "bool option"

definition ProviderCapabilitiesSchema :: "jsval \<Rightarrow> exn + ProviderCapabilities" where
  "ProviderCapabilitiesSchema j =
     (case j of
        JObj kvs \<Rightarrow>
          and_then (optional z_boolean (own_prop kvs ''supportsImages''))
            (\<lambda>si. Inr \<lparr>supportsImages = si\<rparr>)
      | _ \<Rightarrow> Inl ZodError)"

record ModelConfig =
  contextWindow :: "jsnum option"
  temperature :: "jsnum option"

text \<open>
  \<^verbatim>\<open>z.union([z.number(), z.string()]).transform(val => typeof val === 'string' ? parse(val) : val)\<close>:
  a number is kept, a string is parsed, anything else is refused.
\<close>

definition number_or_string :: "(string \<Rightarrow> jsnum) \<Rightarrow> jsval \<Rightarrow> exn + jsnum" where
  "number_or_string parse j =
     (case j of
        JNum n \<Rightarrow> number_ok n
      | JStr s \<Rightarrow> Inr (parse s)
      | _ \<Rightarrow> Inl ZodError)"

text \<open>\<^verbatim>\<open>z.number().min(0).max(2)\<close> on the value the transform returns.\<close>

definition number_min_max :: "jsnum \<Rightarrow> exn + jsnum" where
  "number_min_max n =
     (case n of
        Fin q \<Rightarrow> if 0 \<le> q \<and> q \<le> 2 then Inr n else Inl ZodError
      | _ \<Rightarrow> Inl ZodError)"

definition contextWindowSchema :: "jsval \<Rightarrow> exn + jsnum" where
  "contextWindowSchema j = number_or_string parseInt10 j"

definition temperatureSchema :: "jsval \<Rightarrow> exn + jsnum" where
  "temperatureSchema j = and_then (number_or_string parseFloat j) number_min_max"

definition ModelConfigSchema :: "jsval \<Rightarrow> exn + ModelConfig" where
  "ModelConfigSchema j =
     (case j of
        JObj kvs \<Rightarrow>
          and_then (optional contextWindowSchema (own_prop kvs ''contextWindow'')) (\<lambda>cw.
          and_then (optional temperatureSchema (own_prop kvs ''temperature'')) (\<lambda>t.
          Inr \<lparr>contextWindow = cw, temperature = t\<rparr>))
      | _ \<Rightarrow> Inl ZodError)"

record NemoProvider =
  id' :: string
  name :: string
  type' :: NemoProviderType
  isDefault :: bool
  isBuiltIn :: bool
  baseUrl :: "string option"
  apiKey :: "string option"
  modelId :: "string option"
  capabilities :: "ProviderCapabilities option"
  modelConfig :: "ModelConfig option"
  createdAt :: string
  updatedAt :: string

definition NemoProviderSchema :: "jsval \<Rightarrow> exn + NemoProvider" where
  "NemoProviderSchema j =
     (case j of
        JObj kvs \<Rightarrow>
          and_then (z_string (own_prop kvs ''id'')) (\<lambda>i.
          and_then (z_string (own_prop kvs ''name'')) (\<lambda>n.
          and_then (NemoProviderTypeSchema (own_prop kvs ''type'')) (\<lambda>t.
          and_then (z_boolean (own_prop kvs ''isDefault'')) (\<lambda>d.
          and_then (z_boolean (own_prop kvs ''isBuiltIn'')) (\<lambda>b.
          and_then (optional z_string (own_prop kvs ''baseUrl'')) (\<lambda>u.
          and_then (optional z_string (own_prop kvs ''apiKey'')) (\<lambda>k.
          and_then (optional z_string (own_prop kvs ''modelId'')) (\<lambda>m.
          and_then (optional ProviderCapabilitiesSchema (own_prop kvs ''capabilities'')) (\<lambda>c.
          and_then (optional ModelConfigSchema (own_prop kvs ''modelConfig'')) (\<lambda>mc.
          and_then (z_string (own_prop kvs ''createdAt'')) (\<lambda>ca.
          and_then (z_string (own_prop kvs ''updatedAt'')) (\<lambda>ua.
          Inr \<lparr>id' = i, name = n, type' = t, isDefault = d, isBuiltIn = b, baseUrl = u,
               apiKey = k, modelId = m, capabilities = c, modelConfig = mc,
               createdAt = ca, updatedAt = ua\<rparr>))))))))))))
      | _ \<Rightarrow> Inl ZodError)"

record NemoProvidersConfig =
  defaultProviderId :: string
  providers :: "NemoProvider list"

definition z_array_of :: "(jsval \<Rightarrow> exn + 'a) \<Rightarrow> jsval \<Rightarrow> exn + 'a list" where
  "z_array_of schema j = (case j of JArr js \<Rightarrow> z_array schema js | _ \<Rightarrow> Inl ZodError)"

definition NemoProvidersConfigSchema :: "jsval \<Rightarrow> exn + NemoProvidersConfig" where
  "NemoProvidersConfigSchema j =
     (case j of
        JObj kvs \<Rightarrow>
          and_then (z_string (own_prop kvs ''defaultProviderId'')) (\<lambda>d.
          and_then (z_array_of NemoProviderSchema (own_prop kvs ''providers'')) (\<lambda>ps.
          Inr \<lparr>defaultProviderId = d, providers = ps\<rparr>))
      | _ \<Rightarrow> Inl ZodError)"

section \<open>The host of \<^verbatim>\<open>LLMSettingsReader\<close>\<close>

text \<open>
  What the reader asks of its surroundings, fixed for the length of one operation:
  \<^item> \<open>browserOS_getPref\<close>: \<open>None\<close> when \<^verbatim>\<open>chrome.browserOS?.getPref\<close> is absent;
    otherwise, for the name it is called with, what its callback sees: whether
    \<^verbatim>\<open>chrome.runtime.lastError\<close> is set and \<^verbatim>\<open>pref?.value\<close>. The host
    calls the callback once.
  \<^item> \<open>storage_local_get\<close>: \<open>None\<close> when \<^verbatim>\<open>chrome.storage?.local\<close> is absent, so
    that the optional call does nothing and its callback never runs; otherwise, for the
    key it is called with, \<^verbatim>\<open>stored?.[key]\<close> of the callback's result.
  \<^item> \<open>JSON_parse\<close>: the builtin \<^verbatim>\<open>JSON.parse\<close> on any value, returning the parsed
    value or throwing a SyntaxError. It is a parameter of the model.
  \<^item> \<open>isMockLLMSettings\<close>: the development-mode switch of \<^verbatim>\<open>@/config\<close>.
  \<^item> the variables of \<^verbatim>\<open>process.env\<close> the mock catalog reads.
  \<^item> \<open>clock i\<close>: the text of the \<open>i\<close>-th \<^verbatim>\<open>new Date().toISOString()\<close> of the
    operation, counted from 0.
  Calls of \<^verbatim>\<open>Logging.log\<close> are not part of the model.
\<close>

record GetPrefReply =
  lastError :: bool
  pref_value :: jsval

record host =
  browserOS_getPref :: "(string \<Rightarrow> GetPrefReply) option"
  storage_local_get :: "(string \<Rightarrow> jsval) option"
  JSON_parse :: "jsval \<Rightarrow> exn + jsval"
  isMockLLMSettings :: bool
  MOCK_PROVIDER_TYPE :: "string option"
  OPENAI_API_KEY :: "string option"
  ANTHROPIC_API_KEY :: "string option"
  GOOGLE_API_KEY :: "string option"
  clock :: "nat \<Rightarrow> string"

text \<open>An awaited operation settles with a value or an exception, or never settles.\<close>

datatype 'a promise = Resolved 'a | Rejected exn | Pending

definition await_then :: "'a promise \<Rightarrow> ('a \<Rightarrow> 'b promise) \<Rightarrow> 'b promise" where
  "await_then p f =
     (case p of Resolved x \<Rightarrow> f x | Rejected e \<Rightarrow> Rejected e | Pending \<Rightarrow> Pending)"

definition try_catch :: "'a promise \<Rightarrow> (exn \<Rightarrow> 'a promise) \<Rightarrow> 'a promise" where
  "try_catch p h =
     (case p of Resolved x \<Rightarrow> Resolved x | Rejected e \<Rightarrow> h e | Pending \<Rightarrow> Pending)"

definition settle :: "exn + 'a \<Rightarrow> 'a promise" where
  "settle r = (case r of Inl e \<Rightarrow> Rejected e | Inr x \<Rightarrow> Resolved x)"

text \<open>\<^verbatim>\<open>v || d\<close> on an environment variable: undefined and the empty string give \<open>d\<close>.\<close>

definition or_default :: "string option \<Rightarrow> string \<Rightarrow> string" where
  "or_default v d = (case v of None \<Rightarrow> d | Some s \<Rightarrow> if s = [] then d else s)"

section \<open>\<^verbatim>\<open>LLMSettingsReader\<close>\<close>

text \<open>
  The value a read hands back where a \<^verbatim>\<open>NemoProvider\<close> is expected: a provider,
  or the member of \<^verbatim>\<open>Object.prototype\<close> of the given name, which the lookup
  \<^verbatim>\<open>mockProviders[mockType]\<close> in an object literal finds for a name the literal does
  not have itself.
\<close>

datatype provider_value = Provider NemoProvider | ObjectPrototype string

definition Object_prototype_names :: "string list" where
  "Object_prototype_names =
     [''constructor'', ''__defineGetter__'', ''__defineSetter__'', ''hasOwnProperty'',
      ''__lookupGetter__'', ''__lookupSetter__'', ''isPrototypeOf'',
      ''propertyIsEnumerable'', ''toString'', ''valueOf'', ''__proto__'',
      ''toLocaleString'']"

definition DEFAULT_OPENAI_MODEL :: string where
  "DEFAULT_OPENAI_MODEL = ''gpt-4o''"

definition DEFAULT_ANTHROPIC_MODEL :: string where
  "DEFAULT_ANTHROPIC_MODEL = ''claude-3-5-sonnet-latest''"

definition DEFAULT_GEMINI_MODEL :: string where
  "DEFAULT_GEMINI_MODEL = ''gemini-2.0-flash''"

definition DEFAULT_OLLAMA_MODEL :: string where
  "DEFAULT_OLLAMA_MODEL = ''qwen3:4b''"

definition DEFAULT_OLLAMA_BASE_URL :: string where
  "DEFAULT_OLLAMA_BASE_URL = ''http://localhost:11434''"

text \<open>The built-in provider, its two timestamps read at clock positions \<open>k\<close>, \<open>k + 1\<close>.\<close>

definition getDefaultNemoProvider :: "host \<Rightarrow> nat \<Rightarrow> NemoProvider" where
  "getDefaultNemoProvider h k =
     \<lparr>id' = ''nemo'', name = ''Nemo'', type' = nemo, isDefault = True, isBuiltIn = True,
      baseUrl = None, apiKey = None, modelId = None, capabilities = None,
      modelConfig = None, createdAt = clock h k, updatedAt = clock h (k + 1)\<rparr>"

text \<open>
  \<^verbatim>\<open>Partial<NemoProvider>\<close>: \<open>None\<close> is a key that is not given. For an optional
  field, \<open>Some None\<close> is the key given as undefined. A required field given as undefined
  is not modelled.
\<close>

record PartialNemoProvider =
  p_id :: "string option"
  p_name :: "string option"
  p_type :: "NemoProviderType option"
  p_isDefault :: "bool option"
  p_isBuiltIn :: "bool option"
  p_baseUrl :: "string option option"
  p_apiKey :: "string option option"
  p_modelId :: "string option option"
  p_capabilities :: "ProviderCapabilities option option"
  p_modelConfig :: "ModelConfig option option"
  p_createdAt :: "string option"
  p_updatedAt :: "string option"

definition over :: "'a \<Rightarrow> 'a option \<Rightarrow> 'a" where
  "over d v = (case v of None \<Rightarrow> d | Some x \<Rightarrow> x)"

text \<open>\<^verbatim>\<open>{ ...base, ...provider }\<close>\<close>

definition spread :: "NemoProvider \<Rightarrow> PartialNemoProvider \<Rightarrow> NemoProvider" where
  "spread base p =
     \<lparr>id' = over (id' base) (p_id p), name = over (name base) (p_name p),
      type' = over (type' base) (p_type p),
      isDefault = over (isDefault base) (p_isDefault p),
      isBuiltIn = over (isBuiltIn base) (p_isBuiltIn p),
      baseUrl = over (baseUrl base) (p_baseUrl p),
      apiKey = over (apiKey base) (p_apiKey p),
      modelId = over (modelId base) (p_modelId p),
      capabilities = over (capabilities base) (p_capabilities p),
      modelConfig = over (modelConfig base) (p_modelConfig p),
      createdAt = over (createdAt base) (p_createdAt p),
      updatedAt = over (updatedAt base) (p_updatedAt p)\<rparr>"

text \<open>
  The state of the class is its static field \<^verbatim>\<open>mockProvider\<close>, \<open>None\<close> for null.
  \<^verbatim>\<open>setMockProvider\<close> returns the new state.
\<close>

type_synonym reader_state = "NemoProvider option"

definition setMockProvider :: "host \<Rightarrow> PartialNemoProvider \<Rightarrow> reader_state \<Rightarrow> reader_state" where
  "setMockProvider h provider mockProvider =
     (if \<not> isMockLLMSettings h then mockProvider
      else Some (spread (getDefaultNemoProvider h 0) provider))"

text \<open>The catalog, its timestamps read in the order of the literal.\<close>

definition mockProviders :: "host \<Rightarrow> (string \<times> NemoProvider) list" where
  "mockProviders h =
     [(''nemo'', getDefaultNemoProvider h 0),
      (''openai'',
       \<lparr>id' = ''mock_openai'', name = ''Mock OpenAI'', type' = openai, isDefault = True,
        isBuiltIn = False, baseUrl = Some ''https://api.openai.com/v1'',
        apiKey = Some (or_default (OPENAI_API_KEY h) ''mock-key''),
        modelId = Some DEFAULT_OPENAI_MODEL,
        capabilities = Some \<lparr>supportsImages = Some True\<rparr>,
        modelConfig = Some \<lparr>contextWindow = Some (Fin 128000), temperature = Some (to_double (7 / 10))\<rparr>,
        createdAt = clock h 2, updatedAt = clock h 3\<rparr>),
      (''anthropic'',
       \<lparr>id' = ''mock_anthropic'', name = ''Mock Anthropic'', type' = anthropic,
        isDefault = True, isBuiltIn = False, baseUrl = Some ''https://api.anthropic.com'',
        apiKey = Some (or_default (ANTHROPIC_API_KEY h) ''mock-key''),
        modelId = Some DEFAULT_ANTHROPIC_MODEL,
        capabilities = Some \<lparr>supportsImages = Some True\<rparr>,
        modelConfig = Some \<lparr>contextWindow = Some (Fin 200000), temperature = Some (to_double (7 / 10))\<rparr>,
        createdAt = clock h 4, updatedAt = clock h 5\<rparr>),
      (''gemini'',
       \<lparr>id' = ''mock_gemini'', name = ''Mock Gemini'', type' = google_gemini,
        isDefault = True, isBuiltIn = False, baseUrl = None,
        apiKey = Some (or_default (GOOGLE_API_KEY h) ''mock-key''),
        modelId = Some DEFAULT_GEMINI_MODEL,
        capabilities = Some \<lparr>supportsImages = Some True\<rparr>,
        modelConfig = Some \<lparr>contextWindow = Some (Fin 1000000), temperature = Some (to_double (7 / 10))\<rparr>,
        createdAt = clock h 6, updatedAt = clock h 7\<rparr>),
      (''ollama'',
       \<lparr>id' = ''mock_ollama'', name = ''Mock Ollama'', type' = ollama, isDefault = True,
        isBuiltIn = False, baseUrl = Some DEFAULT_OLLAMA_BASE_URL, apiKey = None,
        modelId = Some DEFAULT_OLLAMA_MODEL,
        capabilities = Some \<lparr>supportsImages = Some False\<rparr>,
        modelConfig = Some \<lparr>contextWindow = Some (Fin 4096), temperature = Some (to_double (7 / 10))\<rparr>,
        createdAt = clock h 8, updatedAt = clock h 9\<rparr>)]"

text \<open>
  \<^verbatim>\<open>mockProviders[mockType]\<close>: the entry of the literal, else the member the
  literal inherits from \<^verbatim>\<open>Object.prototype\<close>, else undefined.
\<close>

definition catalog_get :: "(string \<times> NemoProvider) list \<Rightarrow> string \<Rightarrow> provider_value option" where
  "catalog_get entries k =
     (case map_of entries k of
        Some p \<Rightarrow> Some (Provider p)
      | None \<Rightarrow> if k \<in> set Object_prototype_names then Some (ObjectPrototype k) else None)"

definition getMockProvider :: "reader_state \<Rightarrow> host \<Rightarrow> provider_value" where
  "getMockProvider mockProvider h =
     (case mockProvider of
        Some p \<Rightarrow> Provider p
      | None \<Rightarrow>
          (let mockType = or_default (MOCK_PROVIDER_TYPE h) ''nemo''
           in case catalog_get (mockProviders h) mockType of
                Some v \<Rightarrow> v
              | None \<Rightarrow> Provider (getDefaultNemoProvider h 10)))"

text \<open>
  The key of the stored configuration. \<^verbatim>\<open>NemoTypes.ts\<close> exports the table
  \<^verbatim>\<open>BROWSEROS_PREFERENCE_KEYS\<close>; the reader imports \<^verbatim>\<open>NEMO_PREFERENCE_KEYS\<close>
  from it, a name the module does not export, so that the binding is undefined and
  \<^verbatim>\<open>NEMO_PREFERENCE_KEYS.PROVIDERS\<close> throws a TypeError wherever it is evaluated.
\<close>

definition BROWSEROS_PREFERENCE_KEYS_PROVIDERS :: string where
  "BROWSEROS_PREFERENCE_KEYS_PROVIDERS = ''nemo.providers''"

definition NEMO_PREFERENCE_KEYS_PROVIDERS :: "exn + string" where
  "NEMO_PREFERENCE_KEYS_PROVIDERS = Inl TypeError"

text \<open>\<^verbatim>\<open>await new Promise(resolve => chrome.storage?.local?.get(key, r => resolve(r)))\<close>, then \<^verbatim>\<open>stored?.[key]\<close>\<close>

definition storage_read :: "host \<Rightarrow> string \<Rightarrow> jsval promise" where
  "storage_read h key =
     (case storage_local_get h of None \<Rightarrow> Pending | Some get \<Rightarrow> Resolved (get key))"

text \<open>\<^verbatim>\<open>NemoProvidersConfigSchema.parse(typeof raw === 'string' ? JSON.parse(raw) : raw)\<close>\<close>

definition parse_raw :: "host \<Rightarrow> jsval \<Rightarrow> exn + NemoProvidersConfig" where
  "parse_raw h raw =
     and_then (case raw of JStr s \<Rightarrow> JSON_parse h (JStr s) | _ \<Rightarrow> Inr raw)
       NemoProvidersConfigSchema"

text \<open>\<^verbatim>\<open>NemoProvidersConfigSchema.parse(JSON.parse(pref.value))\<close>\<close>

definition parse_pref :: "host \<Rightarrow> jsval \<Rightarrow> exn + NemoProvidersConfig" where
  "parse_pref h v = and_then (JSON_parse h v) NemoProvidersConfigSchema"

text \<open>\<^verbatim>\<open>config.providers.map(p => ({ ...p, isDefault: p.id === config.defaultProviderId }))\<close>\<close>

definition normalize :: "NemoProvidersConfig \<Rightarrow> NemoProvidersConfig" where
  "normalize config =
     config\<lparr>providers :=
       map (\<lambda>p. p\<lparr>isDefault := (id' p = defaultProviderId config)\<rparr>) (providers config)\<rparr>"

definition find_default :: "NemoProvidersConfig \<Rightarrow> NemoProvider option" where
  "find_default config = find (\<lambda>p. id' p = defaultProviderId config) (providers config)"

definition mock_or_null :: "reader_state \<Rightarrow> host \<Rightarrow> provider_value option promise" where
  "mock_or_null mockProvider h =
     (if isMockLLMSettings h then Resolved (Some (getMockProvider mockProvider h))
      else Resolved None)"

text \<open>
  \<^verbatim>\<open>readFromNemo\<close>. Without the preference API, the key is read first inside the
  \<^verbatim>\<open>try\<close>, then the store, and the \<^verbatim>\<open>catch\<close> gives the mock or null. With the
  API, the key is read in the executor of the promise, as the argument of
  \<^verbatim>\<open>getPref\<close>, and an exception there rejects the promise; the callback resolves it
  on each of its paths.
\<close>

definition readFromNemo :: "reader_state \<Rightarrow> host \<Rightarrow> provider_value option promise" where
  "readFromNemo mockProvider h =
     (case browserOS_getPref h of
        None \<Rightarrow>
          try_catch
            (await_then (settle NEMO_PREFERENCE_KEYS_PROVIDERS) (\<lambda>key.
             await_then (storage_read h key) (\<lambda>raw.
               if \<not> truthy raw then mock_or_null mockProvider h
               else await_then (settle (parse_raw h raw)) (\<lambda>config.
                      Resolved (map_option Provider (find_default config))))))
            (\<lambda>e. mock_or_null mockProvider h)
      | Some getPref \<Rightarrow>
          await_then (settle NEMO_PREFERENCE_KEYS_PROVIDERS) (\<lambda>key.
            let pref = getPref key
            in if lastError pref then Resolved None
               else if \<not> truthy (pref_value pref) then Resolved None
               else try_catch
                      (await_then (settle (parse_pref h (pref_value pref))) (\<lambda>config.
                         Resolved (map_option Provider (find_default (normalize config)))))
                      (\<lambda>e. Resolved None)))"

text \<open>
  \<^verbatim>\<open>read\<close>: the provider of \<^verbatim>\<open>readFromNemo\<close> when it is not null; the built-in
  provider when it is null or when the \<^verbatim>\<open>try\<close> block throws.
\<close>

definition read :: "reader_state \<Rightarrow> host \<Rightarrow> provider_value promise" where
  "read mockProvider h =
     await_then
       (try_catch (readFromNemo mockProvider h) (\<lambda>e. Resolved None))
       (\<lambda>provider. case provider of
          Some p \<Rightarrow> Resolved p
        | None \<Rightarrow> Resolved (Provider (getDefaultNemoProvider h 0)))"

definition readProvidersConfig :: "host \<Rightarrow> NemoProvidersConfig option promise" where
  "readProvidersConfig h =
     (case browserOS_getPref h of
        None \<Rightarrow>
          try_catch
            (await_then (settle NEMO_PREFERENCE_KEYS_PROVIDERS) (\<lambda>key.
             await_then (storage_read h key) (\<lambda>raw.
               if \<not> truthy raw then Resolved None
               else await_then (settle (parse_raw h raw)) (\<lambda>config.
                      Resolved (Some config)))))
            (\<lambda>e. Resolved None)
      | Some getPref \<Rightarrow>
          await_then (settle NEMO_PREFERENCE_KEYS_PROVIDERS) (\<lambda>key.
            let pref = getPref key
            in if lastError pref \<or> \<not> truthy (pref_value pref) then Resolved None
               else try_catch
                      (await_then (settle (parse_pref h (pref_value pref))) (\<lambda>config.
                         Resolved (Some (normalize config))))
                      (\<lambda>e. Resolved None)))"

definition readAllProviders :: "host \<Rightarrow> NemoProvidersConfig promise" where
  "readAllProviders h =
     await_then
       (try_catch (readProvidersConfig h) (\<lambda>e. Resolved None))
       (\<lambda>config. case config of
          Some c \<Rightarrow> Resolved c
        | None \<Rightarrow>
            Resolved \<lparr>defaultProviderId = ''nemo'', providers = [getDefaultNemoProvider h 0]\<rparr>)"

section \<open>Sample inputs\<close>

text \<open>
  A stored provider with a given id and \<^verbatim>\<open>isDefault\<close> flag, the record it validates
  to, and a stored configuration.
\<close>

definition sample_provider :: "string \<Rightarrow> bool \<Rightarrow> jsval" where
  "sample_provider i d =
     JObj [(''id'', JStr i), (''name'', JStr ''Work''), (''type'', JStr ''openai''),
           (''isDefault'', JBool d), (''isBuiltIn'', JBool False),
           (''createdAt'', JStr ''2025-01-01T00:00:00.000Z''),
           (''updatedAt'', JStr ''2025-01-02T00:00:00.000Z'')]"

definition sample_record :: "string \<Rightarrow> bool \<Rightarrow> NemoProvider" where
  "sample_record i d =
     \<lparr>id' = i, name = ''Work'', type' = openai, isDefault = d, isBuiltIn = False,
      baseUrl = None, apiKey = None, modelId = None, capabilities = None,
      modelConfig = None, createdAt = ''2025-01-01T00:00:00.000Z'',
      updatedAt = ''2025-01-02T00:00:00.000Z''\<rparr>"

definition sample_config :: "string \<Rightarrow> jsval list \<Rightarrow> jsval" where
  "sample_config d ps = JObj [(''defaultProviderId'', JStr d), (''providers'', JArr ps)]"

text \<open>
  A stand-in for \<^verbatim>\<open>JSON.parse\<close> that agrees with it on the two texts the samples
  use: one configuration without providers, and a text that is not JSON.
\<close>

definition sample_text :: string where
  \<open>sample_text = ''{"defaultProviderId":"zz","providers":[]}''\<close>

definition sample_JSON_parse :: "jsval \<Rightarrow> exn + jsval" where
  "sample_JSON_parse v =
     (if v = JStr sample_text then Inr (sample_config ''zz'' []) else Inl SyntaxError)"

text \<open>
  A host outside development mode, without the preference API, with an empty
  \<^verbatim>\<open>chrome.storage.local\<close>; a store and a preference API that hold one value under
  the key of the exported table.
\<close>

definition sample_host :: host where
  "sample_host =
     \<lparr>browserOS_getPref = None, storage_local_get = Some (\<lambda>key. JUndefined),
      JSON_parse = sample_JSON_parse, isMockLLMSettings = False,
      MOCK_PROVIDER_TYPE = None, OPENAI_API_KEY = None, ANTHROPIC_API_KEY = None,
      GOOGLE_API_KEY = None, clock = (\<lambda>i. ''2025-06-01T12:00:00.000Z'')\<rparr>"

definition sample_store :: "jsval \<Rightarrow> (string \<Rightarrow> jsval) option" where
  "sample_store v =
     Some (\<lambda>key. if key = BROWSEROS_PREFERENCE_KEYS_PROVIDERS then v else JUndefined)"

definition sample_getPref :: "bool \<Rightarrow> jsval \<Rightarrow> (string \<Rightarrow> GetPrefReply) option" where
  "sample_getPref err v =
     Some (\<lambda>key. \<lparr>lastError = err,
                  pref_value = (if key = BROWSEROS_PREFERENCE_KEYS_PROVIDERS then v
                                else JUndefined)\<rparr>)"

text \<open>A stored configuration whose default id is the id of no provider.\<close>

definition sample_unmatched :: jsval where
  "sample_unmatched = sample_config ''zz'' [sample_provider ''a'' True]"

text \<open>A stored configuration whose flags disagree with its default id.\<close>

definition sample_stale_flags :: jsval where
  "sample_stale_flags = sample_config ''a'' [sample_provider ''a'' False, sample_provider ''b'' True]"

text \<open>The catalog entry \<^verbatim>\<open>openai\<close> on the sample host.\<close>

definition sample_mock_openai :: NemoProvider where
  "sample_mock_openai =
     \<lparr>id' = ''mock_openai'', name = ''Mock OpenAI'', type' = openai, isDefault = True,
      isBuiltIn = False, baseUrl = Some ''https://api.openai.com/v1'',
      apiKey = Some ''mock-key'', modelId = Some ''gpt-4o'',
      capabilities = Some \<lparr>supportsImages = Some True\<rparr>,
      modelConfig = Some \<lparr>contextWindow = Some (Fin 128000),
                            temperature = Some (to_double (7 / 10))\<rparr>,
      createdAt = ''2025-06-01T12:00:00.000Z'',
      updatedAt = ''2025-06-01T12:00:00.000Z''\<rparr>"

text \<open>The argument \<^verbatim>\<open>{ name: "Test", type: "openai" }\<close> of \<^verbatim>\<open>setMockProvider\<close>.\<close>

definition mock_Test :: PartialNemoProvider where
  "mock_Test =
     \<lparr>p_id = None, p_name = Some ''Test'', p_type = Some openai, p_isDefault = None,
      p_isBuiltIn = None, p_baseUrl = None, p_apiKey = None, p_modelId = None,
      p_capabilities = None, p_modelConfig = None, p_createdAt = None,
      p_updatedAt = None\<rparr>"

section \<open>Validation\<close>

subsection \<open>Results of the schema combinators\<close>

lemma and_then_Inr_iff: "and_then r f = Inr y \<longleftrightarrow> (\<exists>x. r = Inr x \<and> f x = Inr y)"
  by (cases r) (simp_all add: and_then_def)

lemma and_then_Inl_iff:
  "and_then r f = Inl e \<longleftrightarrow> r = Inl e \<or> (\<exists>x. r = Inr x \<and> f x = Inl e)"
  by (cases r) (simp_all add: and_then_def)

lemma optional_Inr_iff:
  "optional schema v = Inr y \<longleftrightarrow>
     (v = JUndefined \<and> y = None) \<or> (v \<noteq> JUndefined \<and> (\<exists>x. schema v = Inr x \<and> y = Some x))"
  by (cases v) (auto simp: optional_def and_then_Inr_iff)

lemma optional_Inl_iff:
  "optional schema v = Inl e \<longleftrightarrow> v \<noteq> JUndefined \<and> schema v = Inl e"
  by (cases v) (auto simp: optional_def and_then_Inl_iff)

lemma number_ok_Inl: "number_ok n = Inl e \<Longrightarrow> e = ZodError"
  by (simp add: number_ok_def split: if_splits)

lemma number_or_string_Inl: "number_or_string parse j = Inl e \<Longrightarrow> e = ZodError"
  by (cases j) (auto simp: number_or_string_def dest: number_ok_Inl)

lemma number_min_max_Inl: "number_min_max n = Inl e \<Longrightarrow> e = ZodError"
  by (cases n) (auto simp: number_min_max_def split: if_splits)

lemma number_min_max_Inr_iff:
  "number_min_max n = Inr v \<longleftrightarrow> (\<exists>q. n = Fin q \<and> v = Fin q \<and> 0 \<le> q \<and> q \<le> 2)"
  by (cases n) (auto simp: number_min_max_def)

lemma contextWindowSchema_Inl: "contextWindowSchema j = Inl e \<Longrightarrow> e = ZodError"
  by (simp add: contextWindowSchema_def number_or_string_Inl)

lemma temperatureSchema_Inl: "temperatureSchema j = Inl e \<Longrightarrow> e = ZodError"
  by (auto simp: temperatureSchema_def and_then_Inl_iff
      dest: number_or_string_Inl number_min_max_Inl)

lemma temperatureSchema_Inr_iff:
  "temperatureSchema j = Inr v \<longleftrightarrow>
     (\<exists>q. number_or_string parseFloat j = Inr (Fin q) \<and> v = Fin q \<and> 0 \<le> q \<and> q \<le> 2)"
  by (auto simp: temperatureSchema_def and_then_Inr_iff number_min_max_Inr_iff)

lemma ModelConfigSchema_Inl: "ModelConfigSchema j = Inl e \<Longrightarrow> e = ZodError"
  by (cases j)
     (auto simp: ModelConfigSchema_def and_then_Inl_iff optional_Inl_iff
       dest: contextWindowSchema_Inl temperatureSchema_Inl)

lemma parseFloat_sample_in: "parseFloat ''1.5'' = Fin (3 / 2)"
  by code_simp

lemma parseFloat_sample_out: "parseFloat ''3'' = Fin 3"
  by code_simp

lemma parseInt10_sample: "parseInt10 ''abc'' = NaN"
  by code_simp

lemma ModelConfigSchema_sample_in:
  "ModelConfigSchema (JObj [(''temperature'', JStr ''1.5'')]) =
     Inr \<lparr>contextWindow = None, temperature = Some (Fin (3 / 2))\<rparr>"
  by (simp add: ModelConfigSchema_def own_prop_def optional_def and_then_def
      temperatureSchema_def number_or_string_def parseFloat_sample_in number_min_max_def)

lemma ModelConfigSchema_sample_out:
  "ModelConfigSchema (JObj [(''temperature'', JStr ''3'')]) = Inl ZodError"
  by (simp add: ModelConfigSchema_def own_prop_def optional_def and_then_def
      temperatureSchema_def number_or_string_def parseFloat_sample_out number_min_max_def)

text \<open>
  A string in \<^verbatim>\<open>temperature\<close> that \<^verbatim>\<open>parseFloat\<close> cannot read gives NaN,
  which the piped \<^verbatim>\<open>z.number()\<close> refuses.
\<close>

lemma temperature_unparsed_string_refused:
  "parseFloat s = NaN \<Longrightarrow> temperatureSchema (JStr s) = Inl ZodError"
  by (simp add: temperatureSchema_def number_or_string_def and_then_def number_min_max_def)

subsection \<open>The range of the temperature\<close>

text \<open>
  C5. A \<^verbatim>\<open>temperature\<close> that is present is coerced first (a number is kept, a string
  goes through \<^verbatim>\<open>parseFloat\<close>) and must then lie in the closed interval from 0 to 2:
  a model configuration that validates carries exactly the coerced value, which lies in
  the interval; a coerced value below 0 or above 2 makes validation fail; both ends are
  accepted and nothing is clamped. The string \<^verbatim>\<open>"1.5"\<close> validates to the number
  1.5, and the string \<^verbatim>\<open>"3"\<close> fails validation.
\<close>

theorem temperature_closed_interval:
  "(own_prop kvs ''temperature'' = j \<longrightarrow> j \<noteq> JUndefined \<longrightarrow>
      ModelConfigSchema (JObj kvs) = Inr mc \<longrightarrow>
      (\<exists>q. number_or_string parseFloat j = Inr (Fin q) \<and> 0 \<le> q \<and> q \<le> 2 \<and>
           temperature mc = Some (Fin q)))
   \<and> (own_prop kvs' ''temperature'' = j' \<longrightarrow>
        number_or_string parseFloat j' = Inr (Fin q') \<longrightarrow> (q' < 0 \<or> 2 < q') \<longrightarrow>
        ModelConfigSchema (JObj kvs') = Inl ZodError)
   \<and> (number_or_string parseFloat j'' = Inr (Fin q'') \<longrightarrow> 0 \<le> q'' \<longrightarrow> q'' \<le> 2 \<longrightarrow>
        temperatureSchema j'' = Inr (Fin q''))
   \<and> ModelConfigSchema (JObj [(''temperature'', JStr ''1.5'')]) =
        Inr \<lparr>contextWindow = None, temperature = Some (Fin (3 / 2))\<rparr>
   \<and> ModelConfigSchema (JObj [(''temperature'', JStr ''3'')]) = Inl ZodError"
proof (intro conjI impI)
  assume "own_prop kvs ''temperature'' = j" "j \<noteq> JUndefined"
    and ok: "ModelConfigSchema (JObj kvs) = Inr mc"
  then show "\<exists>q. number_or_string parseFloat j = Inr (Fin q) \<and> 0 \<le> q \<and> q \<le> 2 \<and>
                 temperature mc = Some (Fin q)"
    by (auto simp: ModelConfigSchema_def and_then_Inr_iff optional_Inr_iff
        temperatureSchema_Inr_iff)
next
  assume t: "own_prop kvs' ''temperature'' = j'"
    and c: "number_or_string parseFloat j' = Inr (Fin q')" and r: "q' < 0 \<or> 2 < q'"
  show "ModelConfigSchema (JObj kvs') = Inl ZodError"
  proof (cases "ModelConfigSchema (JObj kvs')")
    case (Inl e)
    then show ?thesis using ModelConfigSchema_Inl by blast
  next
    case (Inr mc')
    from c have "j' \<noteq> JUndefined" by (auto simp: number_or_string_def)
    with Inr t c r show ?thesis
      by (auto simp: ModelConfigSchema_def and_then_Inr_iff optional_Inr_iff
          temperatureSchema_Inr_iff)
  qed
next
  assume "number_or_string parseFloat j'' = Inr (Fin q'')" "0 \<le> q''" "q'' \<le> 2"
  then show "temperatureSchema j'' = Inr (Fin q'')"
    by (simp add: temperatureSchema_Inr_iff)
qed (rule ModelConfigSchema_sample_in ModelConfigSchema_sample_out)+

theorem temperature_closed_interval_witness:
  "own_prop [(''temperature'', JStr ''1.5'')] ''temperature'' = JStr ''1.5''
   \<and> ModelConfigSchema (JObj [(''temperature'', JStr ''1.5'')]) =
        Inr \<lparr>contextWindow = None, temperature = Some (Fin (3 / 2))\<rparr>
   \<and> (\<exists>q. number_or_string parseFloat (JStr ''1.5'') = Inr (Fin q) \<and> 0 \<le> q \<and> q \<le> 2 \<and>
          temperature \<lparr>contextWindow = None, temperature = Some (Fin (3 / 2))\<rparr> = Some (Fin q))
   \<and> own_prop [(''temperature'', JStr ''3'')] ''temperature'' = JStr ''3''
   \<and> number_or_string parseFloat (JStr ''3'') = Inr (Fin 3) \<and> (2::rat) < 3
   \<and> ModelConfigSchema (JObj [(''temperature'', JStr ''3'')]) = Inl ZodError
   \<and> number_or_string parseFloat (JStr ''1.5'') = Inr (Fin (3 / 2))
   \<and> temperatureSchema (JStr ''1.5'') = Inr (Fin (3 / 2))"
  using temperature_closed_interval [of "[(''temperature'', JStr ''1.5'')]" "JStr ''1.5''"
      "\<lparr>contextWindow = None, temperature = Some (Fin (3 / 2))\<rparr>"
      "[(''temperature'', JStr ''3'')]" "JStr ''3''" 3 "JStr ''1.5''" "3 / 2"]
  by (simp add: own_prop_def number_or_string_def parseFloat_sample_in parseFloat_sample_out)

subsection \<open>A context window that is not a numeral\<close>

text \<open>
  C4. A string in a numeric field is parsed before any check, and a string that does not
  parse as a number has to make validation fail. For \<^verbatim>\<open>temperature\<close> it does
  (\<open>temperature_unparsed_string_refused\<close>). For \<^verbatim>\<open>contextWindow\<close> the result of
  \<^verbatim>\<open>parseInt\<close> is not piped into \<^verbatim>\<open>z.number()\<close>: the string
  \<^verbatim>\<open>"abc"\<close> validates, and the context window of the result is NaN.
\<close>

theorem contextWindow_unparsed_string_accepted:
  "ModelConfigSchema (JObj [(''contextWindow'', JStr ''abc'')]) =
     Inr \<lparr>contextWindow = Some NaN, temperature = None\<rparr>"
  by (simp add: ModelConfigSchema_def own_prop_def optional_def and_then_def
      contextWindowSchema_def number_or_string_def parseInt10_sample)

subsection \<open>Provider ids that repeat\<close>

lemma z_array_Inr_iff:
  "z_array schema js = Inr xs \<longleftrightarrow> list_all2 (\<lambda>j x. schema j = Inr x) js xs"
proof (induction js arbitrary: xs)
  case Nil
  then show ?case by auto
next
  case (Cons j js)
  then show ?case
    by (cases xs) (auto simp: and_then_Inr_iff)
qed

lemma z_string_Inr_iff: "z_string j = Inr s \<longleftrightarrow> j = JStr s"
  by (cases j) auto

lemma z_array_of_Inr_iff:
  "z_array_of schema j = Inr xs \<longleftrightarrow>
     (\<exists>js. j = JArr js \<and> list_all2 (\<lambda>j x. schema j = Inr x) js xs)"
  by (cases j) (auto simp: z_array_of_def z_array_Inr_iff)

lemma NemoProviderSchema_sample:
  "NemoProviderSchema (sample_provider i d) = Inr (sample_record i d)"
  by (simp add: NemoProviderSchema_def sample_provider_def sample_record_def own_prop_def
      optional_def and_then_def NemoProviderTypeSchema_def)

text \<open>
  C9. Two providers that share an id do not make validation fail: the schema of the
  configuration has no check across providers. A configuration with the id \<open>a\<close> twice
  validates, and both providers are in the result.
\<close>

theorem duplicate_ids_validate_counterexample:
  "NemoProvidersConfigSchema
     (sample_config ''a'' [sample_provider ''a'' True, sample_provider ''a'' False]) =
   Inr \<lparr>defaultProviderId = ''a'',
        providers = [sample_record ''a'' True, sample_record ''a'' False]\<rparr>
   \<and> id' (sample_record ''a'' True) = id' (sample_record ''a'' False)"
  by (simp add: NemoProvidersConfigSchema_def sample_config_def own_prop_def z_array_of_def
      and_then_def NemoProviderSchema_sample) (simp add: sample_record_def)

text \<open>
  C9, as the schema has it. A configuration validates exactly when
  \<^verbatim>\<open>defaultProviderId\<close> is a string and \<^verbatim>\<open>providers\<close> is an array whose
  members validate one by one; the result lists them in order, repeated ids included.
\<close>

theorem validation_is_per_provider:
  "NemoProvidersConfigSchema (JObj kvs) = Inr c \<longleftrightarrow>
     own_prop kvs ''defaultProviderId'' = JStr (defaultProviderId c) \<and>
     (\<exists>js. own_prop kvs ''providers'' = JArr js \<and>
           list_all2 (\<lambda>j p. NemoProviderSchema j = Inr p) js (providers c))"
  by (cases c)
     (auto simp: NemoProvidersConfigSchema_def and_then_Inr_iff z_string_Inr_iff
       z_array_of_Inr_iff)

theorem validation_is_per_provider_witness:
  "NemoProvidersConfigSchema
     (JObj [(''defaultProviderId'', JStr ''a''),
            (''providers'', JArr [sample_provider ''a'' True, sample_provider ''a'' False])]) =
   Inr \<lparr>defaultProviderId = ''a'',
        providers = [sample_record ''a'' True, sample_record ''a'' False]\<rparr>"
  using validation_is_per_provider
    [of "[(''defaultProviderId'', JStr ''a''),
          (''providers'', JArr [sample_provider ''a'' True, sample_provider ''a'' False])]"
        "\<lparr>defaultProviderId = ''a'',
          providers = [sample_record ''a'' True, sample_record ''a'' False]\<rparr>"]
  by (simp add: own_prop_def NemoProviderSchema_sample)

section \<open>The mock catalog\<close>

lemma map_of_mockProviders:
  "map_of (mockProviders h) k = Some p \<Longrightarrow>
     k \<in> {''nemo'', ''openai'', ''anthropic'', ''gemini'', ''ollama''}"
  by (auto simp: mockProviders_def split: if_splits)

lemma map_of_mockProviders_nemo:
  "map_of (mockProviders h) ''nemo'' = Some (getDefaultNemoProvider h 0)"
  by (simp add: mockProviders_def)

lemma getMockProvider_outside_catalog:
  assumes "or_default (MOCK_PROVIDER_TYPE h) ''nemo'' = k"
    and "k \<notin> {''openai'', ''anthropic'', ''gemini'', ''ollama''}"
    and "k \<notin> set Object_prototype_names"
  shows "getMockProvider None h =
           Provider (getDefaultNemoProvider h (if k = ''nemo'' then 0 else 10))"
proof (cases "k = ''nemo''")
  case True
  with assms show ?thesis
    by (simp add: getMockProvider_def catalog_get_def map_of_mockProviders_nemo)
next
  case False
  with assms(2) have "map_of (mockProviders h) k = None"
    using map_of_mockProviders [of h k] by (cases "map_of (mockProviders h) k") auto
  with assms False show ?thesis
    by (simp add: getMockProvider_def catalog_get_def)
qed

lemma getMockProvider_google_gemini:
  "MOCK_PROVIDER_TYPE h = Some ''google_gemini'' \<Longrightarrow>
     getMockProvider None h = Provider (getDefaultNemoProvider h 10)"
  using getMockProvider_outside_catalog [of h "''google_gemini''"]
  by (simp add: or_default_def Object_prototype_names_def)

text \<open>
  C10. Without an override, a type hint that is unset or is no key of the catalog
  (\<^verbatim>\<open>google_gemini\<close> is none: the key is \<^verbatim>\<open>gemini\<close>) has to give the built-in
  provider, and does for every name that \<^verbatim>\<open>Object.prototype\<close> does not have
  (\<open>getMockProvider_outside_catalog\<close>, \<open>getMockProvider_google_gemini\<close>). The hint
  \<^verbatim>\<open>constructor\<close> is no key of the catalog either, but the lookup in the object
  literal finds the inherited member, which is truthy: the factory and the read return
  it in place of the built-in provider.
\<close>

theorem mock_type_constructor_is_not_default:
  "getMockProvider None (sample_host\<lparr>isMockLLMSettings := True, MOCK_PROVIDER_TYPE := Some ''constructor''\<rparr>)
     = ObjectPrototype ''constructor''
   \<and> read None (sample_host\<lparr>isMockLLMSettings := True, MOCK_PROVIDER_TYPE := Some ''constructor''\<rparr>)
     = Resolved (ObjectPrototype ''constructor'')"
  by (simp add: getMockProvider_def or_default_def catalog_get_def mockProviders_def
      Object_prototype_names_def read_def readFromNemo_def sample_host_def
      NEMO_PREFERENCE_KEYS_PROVIDERS_def settle_def await_then_def try_catch_def
      mock_or_null_def)

section \<open>The readers\<close>

subsection \<open>What the readers come to\<close>

text \<open>
  The key is read before either store is asked, and reading it throws. Without the
  preference API the \<^verbatim>\<open>catch\<close> of the private reader takes over; with it the
  promise of the private reader is rejected, and the public reader catches that.
\<close>

lemma readFromNemo_result:
  "readFromNemo m h =
     (case browserOS_getPref h of
        None \<Rightarrow> mock_or_null m h
      | Some getPref \<Rightarrow> Rejected TypeError)"
  by (simp add: readFromNemo_def NEMO_PREFERENCE_KEYS_PROVIDERS_def settle_def await_then_def
      try_catch_def split: option.splits)

lemma readProvidersConfig_result:
  "readProvidersConfig h =
     (case browserOS_getPref h of
        None \<Rightarrow> Resolved None
      | Some getPref \<Rightarrow> Rejected TypeError)"
  by (simp add: readProvidersConfig_def NEMO_PREFERENCE_KEYS_PROVIDERS_def settle_def
      await_then_def try_catch_def split: option.splits)

lemma read_result:
  "read m h =
     (if browserOS_getPref h = None \<and> isMockLLMSettings h
      then Resolved (getMockProvider m h)
      else Resolved (Provider (getDefaultNemoProvider h 0)))"
  by (simp add: read_def readFromNemo_result mock_or_null_def await_then_def try_catch_def
      split: option.splits)

lemma readAllProviders_result:
  "readAllProviders h =
     Resolved \<lparr>defaultProviderId = ''nemo'', providers = [getDefaultNemoProvider h 0]\<rparr>"
  by (simp add: readAllProviders_def readProvidersConfig_result await_then_def try_catch_def
      split: option.splits)

lemma normalize_flags:
  "\<forall>p \<in> set (providers (normalize c)).
     isDefault p = (id' p = defaultProviderId (normalize c))"
  by (auto simp: normalize_def)

lemma sample_unmatched_validates:
  "NemoProvidersConfigSchema sample_unmatched =
     Inr \<lparr>defaultProviderId = ''zz'', providers = [sample_record ''a'' True]\<rparr>"
  by (simp add: sample_unmatched_def sample_config_def NemoProvidersConfigSchema_def
      own_prop_def z_array_of_def and_then_def NemoProviderSchema_sample)

lemma sample_stale_flags_validates:
  "NemoProvidersConfigSchema sample_stale_flags =
     Inr \<lparr>defaultProviderId = ''a'',
          providers = [sample_record ''a'' False, sample_record ''b'' True]\<rparr>"
  by (simp add: sample_stale_flags_def sample_config_def NemoProvidersConfigSchema_def
      own_prop_def z_array_of_def and_then_def NemoProviderSchema_sample)

lemma getMockProvider_sample_openai:
  "getMockProvider None
     (sample_host\<lparr>isMockLLMSettings := True, MOCK_PROVIDER_TYPE := Some ''openai'',
                   storage_local_get := s\<rparr>)
     = Provider sample_mock_openai"
  by (simp add: getMockProvider_def or_default_def catalog_get_def mockProviders_def
      sample_host_def sample_mock_openai_def DEFAULT_OPENAI_MODEL_def)

lemma unmatched_default_id_outside_development:
  "\<not> isMockLLMSettings h \<or> browserOS_getPref h \<noteq> None \<Longrightarrow>
     read m h = Resolved (Provider (getDefaultNemoProvider h 0))"
  by (auto simp: read_result)

subsection \<open>The flags of \<^verbatim>\<open>readAllProviders\<close>\<close>



subsection \<open>The order of the sources\<close>

text \<open>
  C3. The claim has the fallback store tried when the preference API reports an error,
  and not-found only when neither source gives a value. With the API present and
  \<^verbatim>\<open>chrome.runtime.lastError\<close> set, and a configuration that validates in
  \<^verbatim>\<open>chrome.storage.local\<close> under the key, the private reader does not give that
  configuration, and \<^verbatim>\<open>readAllProviders\<close> returns the built-in configuration.
\<close>

theorem fallback_not_tried_after_error_counterexample:
  "NemoProvidersConfigSchema sample_unmatched =
     Inr \<lparr>defaultProviderId = ''zz'', providers = [sample_record ''a'' True]\<rparr>
   \<and> readProvidersConfig
       (sample_host\<lparr>browserOS_getPref := sample_getPref True JUndefined,
                     storage_local_get := sample_store sample_unmatched\<rparr>)
     = Rejected TypeError
   \<and> readAllProviders
       (sample_host\<lparr>browserOS_getPref := sample_getPref True JUndefined,
                     storage_local_get := sample_store sample_unmatched\<rparr>)
     = Resolved \<lparr>defaultProviderId = ''nemo'',
                 providers = [getDefaultNemoProvider sample_host 0]\<rparr>"
  by (simp add: sample_unmatched_validates readProvidersConfig_result readAllProviders_result
      sample_getPref_def getDefaultNemoProvider_def)

text \<open>
  C3, as the code has it. With the preference API present, no read looks at
  \<^verbatim>\<open>chrome.storage.local\<close>, whether or not the API reports an error: each of the four
  readers gives the same result whatever the fallback store holds. The fallback store
  belongs to the branch that is taken only when the API is absent.
\<close>

theorem fallback_store_not_read_with_api:
  "browserOS_getPref h \<noteq> None \<longrightarrow>
     readFromNemo mockProvider (h\<lparr>storage_local_get := s\<rparr>) = readFromNemo mockProvider h
     \<and> readProvidersConfig (h\<lparr>storage_local_get := s\<rparr>) = readProvidersConfig h
     \<and> read mockProvider (h\<lparr>storage_local_get := s\<rparr>) = read mockProvider h
     \<and> readAllProviders (h\<lparr>storage_local_get := s\<rparr>) = readAllProviders h"
  by (auto simp: readFromNemo_result readProvidersConfig_result read_result
      readAllProviders_result getDefaultNemoProvider_def)

theorem fallback_store_not_read_with_api_witness:
  "browserOS_getPref (sample_host\<lparr>browserOS_getPref := sample_getPref True JUndefined\<rparr>) \<noteq> None
   \<and> readAllProviders
       (sample_host\<lparr>browserOS_getPref := sample_getPref True JUndefined,
                     storage_local_get := sample_store sample_unmatched\<rparr>)
     = readAllProviders (sample_host\<lparr>browserOS_getPref := sample_getPref True JUndefined\<rparr>)
   \<and> read None
       (sample_host\<lparr>browserOS_getPref := sample_getPref True JUndefined,
                     storage_local_get := sample_store sample_unmatched\<rparr>)
     = read None (sample_host\<lparr>browserOS_getPref := sample_getPref True JUndefined\<rparr>)"
  using fallback_store_not_read_with_api
    [of "sample_host\<lparr>browserOS_getPref := sample_getPref True JUndefined\<rparr>" None
        "sample_store sample_unmatched"]
  by (simp add: sample_getPref_def)

subsection \<open>Reading the default provider\<close>

text \<open>
  C2. The claim has \<^verbatim>\<open>read\<close> return the built-in provider for an empty store. In
  development mode without the preference API it returns the mock instead: with nothing
  stored and the type hint \<^verbatim>\<open>openai\<close>, the result is the mock of the catalog, which
  is not built in and carries an API key and a base URL.
\<close>

theorem empty_store_mock_counterexample:
  "read None (sample_host\<lparr>isMockLLMSettings := True, MOCK_PROVIDER_TYPE := Some ''openai''\<rparr>)
     = Resolved (Provider
         \<lparr>id' = ''mock_openai'', name = ''Mock OpenAI'', type' = openai, isDefault = True,
          isBuiltIn = False, baseUrl = Some ''https://api.openai.com/v1'',
          apiKey = Some ''mock-key'', modelId = Some ''gpt-4o'',
          capabilities = Some \<lparr>supportsImages = Some True\<rparr>,
          modelConfig = Some \<lparr>contextWindow = Some (Fin 128000),
                                temperature = Some (to_double (7 / 10))\<rparr>,
          createdAt = ''2025-06-01T12:00:00.000Z'',
          updatedAt = ''2025-06-01T12:00:00.000Z''\<rparr>)"
  by (simp add: read_result sample_host_def getMockProvider_def or_default_def catalog_get_def
      mockProviders_def DEFAULT_OPENAI_MODEL_def)

text \<open>
  C2, as the code has it. \<^verbatim>\<open>read\<close> returns a value on every host: it neither
  rejects nor stays pending. Outside development mode, or with the preference API
  present, the value is the built-in provider, which has \<^verbatim>\<open>isBuiltIn\<close> true and
  neither API key nor base URL; this covers the empty or absent store, the malformed JSON
  string in the fallback store, the error of the API and the value that does not
  validate. In development mode without the preference API the value is the mock
  provider.
\<close>

theorem read_absorbs_failures:
  "(\<exists>v. read mockProvider h = Resolved v)
   \<and> (\<not> isMockLLMSettings h \<or> browserOS_getPref h \<noteq> None \<longrightarrow>
        read mockProvider h = Resolved (Provider (getDefaultNemoProvider h 0)))
   \<and> (isMockLLMSettings h \<longrightarrow> browserOS_getPref h = None \<longrightarrow>
        read mockProvider h = Resolved (getMockProvider mockProvider h))
   \<and> isBuiltIn (getDefaultNemoProvider h 0)
   \<and> apiKey (getDefaultNemoProvider h 0) = None
   \<and> baseUrl (getDefaultNemoProvider h 0) = None"
  by (auto simp: read_result getDefaultNemoProvider_def)

theorem read_absorbs_failures_witness:
  "\<not> isMockLLMSettings (sample_host\<lparr>storage_local_get := sample_store (JStr ''{oops'')\<rparr>)
   \<and> JSON_parse (sample_host\<lparr>storage_local_get := sample_store (JStr ''{oops'')\<rparr>)
        (JStr ''{oops'') = Inl SyntaxError
   \<and> read None (sample_host\<lparr>storage_local_get := sample_store (JStr ''{oops'')\<rparr>)
       = Resolved (Provider (getDefaultNemoProvider sample_host 0))
   \<and> \<not> isMockLLMSettings (sample_host\<lparr>storage_local_get := None\<rparr>)
   \<and> read None (sample_host\<lparr>storage_local_get := None\<rparr>)
       = Resolved (Provider (getDefaultNemoProvider sample_host 0))
   \<and> isMockLLMSettings (sample_host\<lparr>isMockLLMSettings := True, MOCK_PROVIDER_TYPE := Some ''openai''\<rparr>)
   \<and> browserOS_getPref (sample_host\<lparr>isMockLLMSettings := True, MOCK_PROVIDER_TYPE := Some ''openai''\<rparr>)
       = None
   \<and> read None (sample_host\<lparr>isMockLLMSettings := True, MOCK_PROVIDER_TYPE := Some ''openai''\<rparr>)
       = Resolved (Provider sample_mock_openai)"
proof -
  let ?h = "sample_host\<lparr>storage_local_get := sample_store (JStr ''{oops'')\<rparr>"
  let ?a = "sample_host\<lparr>storage_local_get := None\<rparr>"
  let ?d = "sample_host\<lparr>isMockLLMSettings := True, MOCK_PROVIDER_TYPE := Some ''openai''\<rparr>"
  have n: "\<not> isMockLLMSettings ?h" "\<not> isMockLLMSettings ?a"
    and m: "isMockLLMSettings ?d" "browserOS_getPref ?d = None"
    by (simp_all add: sample_host_def)
  have j: "JSON_parse ?h (JStr ''{oops'') = Inl SyntaxError"
    by (simp add: sample_host_def sample_JSON_parse_def sample_text_def)
  have d: "getDefaultNemoProvider ?h 0 = getDefaultNemoProvider sample_host 0"
    "getDefaultNemoProvider ?a 0 = getDefaultNemoProvider sample_host 0"
    by (simp_all add: getDefaultNemoProvider_def)
  have g: "getMockProvider None ?d = Provider sample_mock_openai"
    using getMockProvider_sample_openai [of "storage_local_get sample_host"] by simp
  from read_absorbs_failures [of None ?h] n(1)
  have 1: "read None ?h = Resolved (Provider (getDefaultNemoProvider ?h 0))"
    by blast
  from read_absorbs_failures [of None ?a] n(2)
  have 2: "read None ?a = Resolved (Provider (getDefaultNemoProvider ?a 0))"
    by blast
  from read_absorbs_failures [of None ?d] m
  have 3: "read None ?d = Resolved (getMockProvider None ?d)"
    by blast
  from 1 2 3 n m j show ?thesis
    by (simp only: d g) simp
qed

text \<open>
  C6. A stored configuration that validates and whose \<^verbatim>\<open>defaultProviderId\<close> is the
  id of none of its providers has to give the built-in provider. Outside development
  mode, and with the preference API present, it does
  (\<open>unmatched_default_id_outside_development\<close>). In development mode without the API the
  key is read inside the \<^verbatim>\<open>try\<close>, the exception takes the \<^verbatim>\<open>catch\<close>, and the
  \<^verbatim>\<open>catch\<close> returns the mock: with such a configuration in
  \<^verbatim>\<open>chrome.storage.local\<close> and the type hint \<^verbatim>\<open>openai\<close>, \<^verbatim>\<open>read\<close> returns
  the mock of the catalog.
\<close>

theorem unmatched_default_id_gives_mock:
  "NemoProvidersConfigSchema sample_unmatched =
     Inr \<lparr>defaultProviderId = ''zz'', providers = [sample_record ''a'' True]\<rparr>
   \<and> id' (sample_record ''a'' True) \<noteq> ''zz''
   \<and> read None
       (sample_host\<lparr>isMockLLMSettings := True, MOCK_PROVIDER_TYPE := Some ''openai'',
                     storage_local_get := sample_store sample_unmatched\<rparr>)
     = Resolved (Provider sample_mock_openai)
   \<and> sample_mock_openai \<noteq> getDefaultNemoProvider sample_host 0"
  by (simp add: sample_unmatched_validates read_result getMockProvider_sample_openai)
     (simp add: sample_host_def sample_record_def sample_mock_openai_def
       getDefaultNemoProvider_def)

subsection \<open>The mock override\<close>

text \<open>
  C7. Outside development mode \<^verbatim>\<open>setMockProvider\<close> leaves the stored override as
  it was, so that every later read, on any host, gives what it would have given without
  the call; and a read outside development mode does not depend on the override at all.
\<close>

theorem setMockProvider_outside_development:
  assumes "\<not> isMockLLMSettings h"
  shows "setMockProvider h provider mockProvider = mockProvider
         \<and> read (setMockProvider h provider mockProvider) h' = read mockProvider h'
         \<and> read mockProvider h = read None h"
  using assms
  by (simp add: setMockProvider_def read_result)

theorem setMockProvider_outside_development_witness:
  "\<not> isMockLLMSettings sample_host
   \<and> setMockProvider sample_host mock_Test (Some (sample_record ''m'' True))
       = Some (sample_record ''m'' True)
   \<and> read (setMockProvider sample_host mock_Test (Some (sample_record ''m'' True)))
         (sample_host\<lparr>isMockLLMSettings := True\<rparr>)
       = read (Some (sample_record ''m'' True)) (sample_host\<lparr>isMockLLMSettings := True\<rparr>)
   \<and> read (Some (sample_record ''m'' True)) sample_host = read None sample_host"
  using setMockProvider_outside_development
    [of sample_host mock_Test "Some (sample_record ''m'' True)"
        "sample_host\<lparr>isMockLLMSettings := True\<rparr>"]
  by (simp add: sample_host_def)

text \<open>
  C8. The claim has every read after \<^verbatim>\<open>setMockProvider({ name: "Test", type: "openai" })\<close>
  return the mock. The mock is read only on the path without the preference API: in
  development mode, with the override set and the API present, \<^verbatim>\<open>read\<close> returns the
  built-in provider, named \<^verbatim>\<open>Nemo\<close>.
\<close>

theorem mock_not_read_counterexample:
  "read (setMockProvider (sample_host\<lparr>isMockLLMSettings := True\<rparr>) mock_Test None)
        (sample_host\<lparr>isMockLLMSettings := True,
                      browserOS_getPref := sample_getPref False JUndefined\<rparr>)
     = Resolved (Provider (getDefaultNemoProvider sample_host 0))
   \<and> name (getDefaultNemoProvider sample_host 0) = ''Nemo''
   \<and> type' (getDefaultNemoProvider sample_host 0) = nemo"
  by (simp add: read_result sample_getPref_def)
     (simp add: getDefaultNemoProvider_def sample_host_def)

text \<open>
  C8, as the code has it. After a \<^verbatim>\<open>setMockProvider\<close> in development mode, every
  read in development mode without the preference API returns the argument spread over
  the built-in provider of the time of the call; for the argument
  \<^verbatim>\<open>{ name: "Test", type: "openai" }\<close> that is the built-in provider with the name
  \<^verbatim>\<open>Test\<close> and the type \<^verbatim>\<open>openai\<close>.
\<close>

theorem mock_read_without_api:
  assumes "isMockLLMSettings h" and "isMockLLMSettings h'"
    and "browserOS_getPref h' = None"
  shows "read (setMockProvider h provider mockProvider) h'
           = Resolved (Provider (spread (getDefaultNemoProvider h 0) provider))
         \<and> spread (getDefaultNemoProvider h 0) mock_Test
           = (getDefaultNemoProvider h 0)\<lparr>name := ''Test'', type' := openai\<rparr>"
proof
  from assms
  show "read (setMockProvider h provider mockProvider) h'
          = Resolved (Provider (spread (getDefaultNemoProvider h 0) provider))"
    by (simp add: read_result getMockProvider_def setMockProvider_def)
next
  show "spread (getDefaultNemoProvider h 0) mock_Test
          = (getDefaultNemoProvider h 0)\<lparr>name := ''Test'', type' := openai\<rparr>"
    by (simp add: spread_def mock_Test_def over_def getDefaultNemoProvider_def)
qed

theorem mock_read_without_api_witness:
  "isMockLLMSettings (sample_host\<lparr>isMockLLMSettings := True\<rparr>)
   \<and> browserOS_getPref (sample_host\<lparr>isMockLLMSettings := True\<rparr>) = None
   \<and> read (setMockProvider (sample_host\<lparr>isMockLLMSettings := True\<rparr>) mock_Test None)
           (sample_host\<lparr>isMockLLMSettings := True\<rparr>)
       = Resolved (Provider ((getDefaultNemoProvider sample_host 0)
                               \<lparr>name := ''Test'', type' := openai\<rparr>))"
  using mock_read_without_api
    [of "sample_host\<lparr>isMockLLMSettings := True\<rparr>" "sample_host\<lparr>isMockLLMSettings := True\<rparr>"
        mock_Test None]
  by (simp add: sample_host_def getDefaultNemoProvider_def)

end
